theory Spec2Isabelle
  imports Main "HOL-Library.Word"
begin

section \<open>Python values\<close>

text \<open>
  A Python \<open>str\<close> is a sequence of code points (numbers below \<open>0x110000\<close>, the
  surrogate range included). Paths, file texts, dictionary keys and JSON strings are
  all of this type.
\<close>

type_synonym str = "nat list"

type_synonym path = str

definition ascii :: "string \<Rightarrow> str" where
  "ascii s = map of_char s"

text \<open>
  The objects \<open>json.loads\<close> builds: \<open>None\<close>, \<open>bool\<close>, \<open>int\<close>, \<open>float\<close> (an IEEE double,
  kept as its 64 bits; the program does no arithmetic), \<open>str\<close>, \<open>list\<close> and \<open>dict\<close>.
  A \<open>dict\<close> keeps its keys in insertion order; it is an association list, looked
  up with \<open>map_of\<close>.
\<close>

datatype json =
    JNull
  | JBool bool
  | JInt int
  | JFloat "64 word"
  | JStr str
  | JList "json list"
  | JDict "(str \<times> json) list"

datatype pyerror =
    FileNotFoundError
  | PermissionError
  | IsADirectoryError
  | OSError
  | UnicodeDecodeError
  | UnicodeEncodeError
  | JSONDecodeError
  | RecursionError
  | ValueError
  | KeyError
  | IndexError
  | TypeError

definition variables_key :: str where
  "variables_key = ascii ''variables''"

definition fxv2_key :: str where
  "fxv2_key = ascii ''$fxv#2''"

subsection \<open>The operators the update uses\<close>

text \<open>\<open>sub in s\<close> on two strings: \<open>sub\<close> occurs in \<open>s\<close> as a contiguous run.\<close>

fun is_substring :: "str \<Rightarrow> str \<Rightarrow> bool" where
  "is_substring sub [] = (sub = [])"
| "is_substring sub (c # cs) = (take (length sub) (c # cs) = sub \<or> is_substring sub cs)"

text \<open>
  \<open>k in x\<close> for a string \<open>k\<close>: key membership on a dict, element membership on a
  list, substring test on a string, and \<open>TypeError\<close> (argument is not iterable) on
  \<open>None\<close>, a bool or a number.
\<close>

fun py_in :: "str \<Rightarrow> json \<Rightarrow> pyerror + bool" where
  "py_in k (JDict kvs) = Inr (map_of kvs k \<noteq> None)"
| "py_in k (JList xs) = Inr (JStr k \<in> set xs)"
| "py_in k (JStr s) = Inr (is_substring k s)"
| "py_in k JNull = Inl TypeError"
| "py_in k (JBool b) = Inl TypeError"
| "py_in k (JInt i) = Inl TypeError"
| "py_in k (JFloat f) = Inl TypeError"

text \<open>
  \<open>x[k]\<close> for a string \<open>k\<close>: the value on a dict (\<open>KeyError\<close> when absent), and
  \<open>TypeError\<close> on everything else (a list or a string is indexed by integers,
  the others are not subscriptable).
\<close>

fun py_getitem :: "json \<Rightarrow> str \<Rightarrow> pyerror + json" where
  "py_getitem (JDict kvs) k = (case map_of kvs k of None \<Rightarrow> Inl KeyError | Some v \<Rightarrow> Inr v)"
| "py_getitem (JList xs) k = Inl TypeError"
| "py_getitem (JStr s) k = Inl TypeError"
| "py_getitem JNull k = Inl TypeError"
| "py_getitem (JBool b) k = Inl TypeError"
| "py_getitem (JInt i) k = Inl TypeError"
| "py_getitem (JFloat f) k = Inl TypeError"

text \<open>
  \<open>d[k] = v\<close> on a dict: an existing key keeps its place and gets the new value, a
  new key goes to the end.
\<close>

fun dict_set :: "str \<Rightarrow> json \<Rightarrow> (str \<times> json) list \<Rightarrow> (str \<times> json) list" where
  "dict_set k v [] = [(k, v)]"
| "dict_set k v ((k', v') # kvs) =
     (if k' = k then (k', v) # kvs else (k', v') # dict_set k v kvs)"

text \<open>
  \<open>x[k] = v\<close> for a string \<open>k\<close>: the updated object for a dict, \<open>TypeError\<close> for
  everything else.
\<close>

fun py_setitem :: "json \<Rightarrow> str \<Rightarrow> json \<Rightarrow> pyerror + json" where
  "py_setitem (JDict kvs) k v = Inr (JDict (dict_set k v kvs))"
| "py_setitem (JList xs) k v = Inl TypeError"
| "py_setitem (JStr s) k v = Inl TypeError"
| "py_setitem JNull k v = Inl TypeError"
| "py_setitem (JBool b) k v = Inl TypeError"
| "py_setitem (JInt i) k v = Inl TypeError"
| "py_setitem (JFloat f) k v = Inl TypeError"

subsection \<open>The update step of \<open>update_template\<close>\<close>

text \<open>
  Lines 34 to 39 of the script:
  \<^verbatim>\<open>
    if 'variables' in template and '$fxv#2' in template['variables']:
        template['variables']['$fxv#2'] = ps_script
    else:
        return False
  \<close>
  The result is the error raised, or the flag (\<open>False\<close> for the \<open>else\<close> branch)
  with the template as it is afterwards. The inner dict is an object held by the
  outer one, so the assignment shows in the template: the last step stores the
  updated inner dict back under \<open>variables\<close>.
\<close>

definition apply_update :: "json \<Rightarrow> str \<Rightarrow> pyerror + bool \<times> json" where
  "apply_update template ps_script =
    (case py_in variables_key template of
       Inl e \<Rightarrow> Inl e
     | Inr False \<Rightarrow> Inr (False, template)
     | Inr True \<Rightarrow>
        (case py_getitem template variables_key of
           Inl e \<Rightarrow> Inl e
         | Inr vars \<Rightarrow>
            (case py_in fxv2_key vars of
               Inl e \<Rightarrow> Inl e
             | Inr False \<Rightarrow> Inr (False, template)
             | Inr True \<Rightarrow>
                (case py_getitem template variables_key of
                   Inl e \<Rightarrow> Inl e
                 | Inr target \<Rightarrow>
                    (case py_setitem target fxv2_key (JStr ps_script) of
                       Inl e \<Rightarrow> Inl e
                     | Inr target' \<Rightarrow>
                        (case py_setitem template variables_key target' of
                           Inl e \<Rightarrow> Inl e
                         | Inr template' \<Rightarrow> Inr (True, template')))))))"

section \<open>Text files\<close>

text \<open>
  \<open>open(p, 'r', encoding='utf-8')\<close> leaves \<open>newline\<close> at its default, so \<open>read()\<close>
  works in universal newlines mode: every \<open>\r\n\<close> and every other \<open>\r\<close> of the
  decoded text comes back as \<open>\n\<close>.
\<close>

fun universal_newlines :: "str \<Rightarrow> str" where
  "universal_newlines [] = []"
| "universal_newlines [c] = [if c = 13 then 10 else c]"
| "universal_newlines (c # d # cs) =
     (if c = 13 \<and> d = 10 then 10 # universal_newlines cs
      else if c = 13 then 10 # universal_newlines (d # cs)
      else c # universal_newlines (d # cs))"

text \<open>
  \<open>open(p, 'w', encoding='utf-8')\<close>, again with the default \<open>newline\<close>: every \<open>\n\<close>
  written becomes the platform's line separator.
\<close>

definition write_newlines :: "str \<Rightarrow> str \<Rightarrow> str" where
  "write_newlines sep text = concat (map (\<lambda>c. if c = 10 then sep else [c]) text)"

text \<open>
  The UTF-8 codec (with the default \<open>errors='strict'\<close>) refuses the surrogate code
  points \<open>U+D800\<close> to \<open>U+DFFF\<close>.
\<close>

definition is_surrogate :: "nat \<Rightarrow> bool" where
  "is_surrogate c = (0xD800 \<le> c \<and> c \<le> 0xDFFF)"

definition utf8_encodable :: "str \<Rightarrow> bool" where
  "utf8_encodable text = list_all (\<lambda>c. \<not> is_surrogate c) text"

text \<open>
  What the program sees of the machine it runs on. \<open>files w p\<close> is what opening
  \<open>p\<close> for reading as UTF-8 gives: the error raised (\<open>FileNotFoundError\<close>,
  \<open>PermissionError\<close>, \<open>UnicodeDecodeError\<close>, ...) or the decoded text of the file, before
  newline translation. \<open>write_denied w p\<close> is the error that opening \<open>p\<close> for
  writing raises, if any. \<open>linesep w\<close> is \<open>os.linesep\<close>. \<open>torn w text\<close> is what is
  left in a file that was opened for writing (hence truncated) when encoding
  \<open>text\<close> fails part of the way. \<open>trace w\<close> records, in order, the lines
  printed and the calls of \<open>open\<close>.
\<close>

datatype event = Print str | OpenRead path | OpenWrite path

record world =
  files :: "path \<Rightarrow> pyerror + str"
  write_denied :: "path \<Rightarrow> pyerror option"
  linesep :: str
  torn :: "str \<Rightarrow> str"
  trace :: "event list"

definition emit :: "event \<Rightarrow> world \<Rightarrow> world" where
  "emit e w = w\<lparr>trace := trace w @ [e]\<rparr>"

text \<open>\<open>with open(p, 'r', encoding='utf-8') as f: ... f.read()\<close>\<close>

definition read_text :: "path \<Rightarrow> world \<Rightarrow> (pyerror + str) \<times> world" where
  "read_text p w =
     (case files w p of
        Inl e \<Rightarrow> (Inl e, emit (OpenRead p) w)
      | Inr raw \<Rightarrow> (Inr (universal_newlines raw), emit (OpenRead p) w))"

text \<open>
  \<open>with open(p, 'w', encoding='utf-8') as f:\<close> followed by writing \<open>text\<close> into
  \<open>f\<close>. The file is truncated as soon as it is open.
\<close>

definition write_text :: "path \<Rightarrow> str \<Rightarrow> world \<Rightarrow> (pyerror + unit) \<times> world" where
  "write_text p text w =
     (case write_denied w p of
        Some e \<Rightarrow> (Inl e, emit (OpenWrite p) w)
      | None \<Rightarrow>
          if utf8_encodable text
          then (Inr (), (emit (OpenWrite p) w)
                  \<lparr>files := (files w)(p := Inr (write_newlines (linesep w) text))\<rparr>)
          else (Inl UnicodeEncodeError, (emit (OpenWrite p) w)
                  \<lparr>files := (files w)(p := Inr (torn w text))\<rparr>))"

section \<open>The \<open>json\<close> module\<close>

subsection \<open>Strings\<close>

definition hex_digit :: "nat \<Rightarrow> nat" where
  "hex_digit d = (if d < 10 then 48 + d else 87 + d)"

text \<open>\<open>'{0:04x}'.format(n)\<close> for \<open>n < 0x10000\<close>.\<close>

definition hex4 :: "nat \<Rightarrow> str" where
  "hex4 n = [hex_digit (n div 4096 mod 16), hex_digit (n div 256 mod 16),
             hex_digit (n div 16 mod 16), hex_digit (n mod 16)]"

text \<open>
  \<open>ESCAPE_DCT\<close>: the short escapes of the quote, the backslash and five control
  characters; the other characters below \<open>0x20\<close> as \<open>\u00XX\<close>.
\<close>

definition escape_dct :: "nat \<Rightarrow> str option" where
  "escape_dct c =
     (if c = 0x5C then Some [0x5C, 0x5C]
      else if c = 0x22 then Some [0x5C, 0x22]
      else if c = 0x08 then Some [0x5C, 0x62]
      else if c = 0x0C then Some [0x5C, 0x66]
      else if c = 0x0A then Some [0x5C, 0x6E]
      else if c = 0x0D then Some [0x5C, 0x72]
      else if c = 0x09 then Some [0x5C, 0x74]
      else if c < 0x20 then Some ([0x5C, 0x75] @ hex4 c)
      else None)"

text \<open>
  \<open>encode_basestring_ascii\<close>, which \<open>json.dumps\<close> uses by default
  (\<open>ensure_ascii=True\<close>): everything outside \<open>' '\<close> to \<open>'~'\<close> is escaped, a code
  point from \<open>0x10000\<close> on as a surrogate pair.
\<close>

definition escape_ascii_char :: "nat \<Rightarrow> str" where
  "escape_ascii_char c =
     (case escape_dct c of
        Some e \<Rightarrow> e
      | None \<Rightarrow>
          if 0x20 \<le> c \<and> c \<le> 0x7E then [c]
          else if c < 0x10000 then [0x5C, 0x75] @ hex4 c
          else [0x5C, 0x75] @ hex4 (0xD800 + (c - 0x10000) div 1024 mod 1024)
             @ [0x5C, 0x75] @ hex4 (0xDC00 + (c - 0x10000) mod 1024))"

definition encode_basestring_ascii :: "str \<Rightarrow> str" where
  "encode_basestring_ascii s = [0x22] @ concat (map escape_ascii_char s) @ [0x22]"

text \<open>
  \<open>encode_basestring\<close>, used with \<open>ensure_ascii=False\<close>: only the characters of
  \<open>ESCAPE_DCT\<close> are escaped.
\<close>

definition escape_char :: "nat \<Rightarrow> str" where
  "escape_char c = (case escape_dct c of Some e \<Rightarrow> e | None \<Rightarrow> [c])"

definition encode_basestring :: "str \<Rightarrow> str" where
  "encode_basestring s = [0x22] @ concat (map escape_char s) @ [0x22]"

subsection \<open>Serialisation with \<open>indent=2, ensure_ascii=False\<close>\<close>

function nat_repr :: "nat \<Rightarrow> str" where
  "nat_repr n = (if n < 10 then [48 + n] else nat_repr (n div 10) @ [48 + n mod 10])"
  by pat_completeness auto
termination
  by (relation "measure (\<lambda>n. n)") auto

definition int_repr :: "int \<Rightarrow> str" where
  "int_repr i = (if i < 0 then 0x2D # nat_repr (nat (- i)) else nat_repr (nat i))"

fun join :: "str \<Rightarrow> str list \<Rightarrow> str" where
  "join sep [] = []"
| "join sep [x] = x"
| "join sep (x # y # ys) = x @ sep @ join sep (y # ys)"

definition newline_indent :: "nat \<Rightarrow> str" where
  "newline_indent level = 10 # replicate (2 * level) 32"

text \<open>
  The text \<open>json.dump(obj, f, indent=2, ensure_ascii=False)\<close> writes for an object
  at nesting depth \<open>level\<close>. \<open>float_repr\<close> is the text of a float (\<open>float.__repr__\<close>,
  or \<open>NaN\<close>, \<open>Infinity\<close>, \<open>-Infinity\<close>).
\<close>

fun json_encode :: "(64 word \<Rightarrow> str) \<Rightarrow> nat \<Rightarrow> json \<Rightarrow> str" where
  "json_encode float_repr level JNull = ascii ''null''"
| "json_encode float_repr level (JBool b) = (if b then ascii ''true'' else ascii ''false'')"
| "json_encode float_repr level (JInt i) = int_repr i"
| "json_encode float_repr level (JFloat f) = float_repr f"
| "json_encode float_repr level (JStr s) = encode_basestring s"
| "json_encode float_repr level (JList xs) =
     (if xs = [] then ascii ''[]''
      else [0x5B] @ newline_indent (Suc level)
         @ join (0x2C # newline_indent (Suc level))
             (map (json_encode float_repr (Suc level)) xs)
         @ newline_indent level @ [0x5D])"
| "json_encode float_repr level (JDict kvs) =
     (if kvs = [] then ascii ''{}''
      else [0x7B] @ newline_indent (Suc level)
         @ join (0x2C # newline_indent (Suc level))
             (map (\<lambda>kv. encode_basestring (fst kv) @ ascii '': ''
                      @ json_encode float_repr (Suc level) (snd kv)) kvs)
         @ newline_indent level @ [0x7D])"

subsection \<open>Reading a string literal\<close>

definition hex_value :: "nat \<Rightarrow> nat option" where
  "hex_value c =
     (if 0x30 \<le> c \<and> c \<le> 0x39 then Some (c - 0x30)
      else if 0x61 \<le> c \<and> c \<le> 0x66 then Some (c - 0x57)
      else if 0x41 \<le> c \<and> c \<le> 0x46 then Some (c - 0x37)
      else None)"

definition decode_hex4 :: "nat \<Rightarrow> nat \<Rightarrow> nat \<Rightarrow> nat \<Rightarrow> nat option" where
  "decode_hex4 a b c d =
     (case hex_value a of None \<Rightarrow> None | Some x3 \<Rightarrow>
     (case hex_value b of None \<Rightarrow> None | Some x2 \<Rightarrow>
     (case hex_value c of None \<Rightarrow> None | Some x1 \<Rightarrow>
     (case hex_value d of None \<Rightarrow> None | Some x0 \<Rightarrow>
        Some (x3 * 4096 + x2 * 256 + x1 * 16 + x0)))))"

text \<open>The one-letter escapes (\<open>BACKSLASH\<close> in \<open>json.decoder\<close>).\<close>

definition backslash :: "nat \<Rightarrow> nat option" where
  "backslash e =
     (if e = 0x22 then Some 0x22
      else if e = 0x5C then Some 0x5C
      else if e = 0x2F then Some 0x2F
      else if e = 0x62 then Some 0x08
      else if e = 0x66 then Some 0x0C
      else if e = 0x6E then Some 0x0A
      else if e = 0x72 then Some 0x0D
      else if e = 0x74 then Some 0x09
      else None)"

text \<open>
  Modelled from the spec: the reading of a JSON string literal is not code of the
  script; this is the string grammar of JSON as \<open>json.loads\<close> reads it
  (\<open>scanstring\<close>, strict). \<open>scan_escape\<close> reads what follows a backslash and gives
  the character denoted and the number of characters used; a \<open>\uXXXX\<close> of a high
  surrogate followed by a \<open>\uXXXX\<close> of a low surrogate denotes one code point.
\<close>

definition scan_escape :: "str \<Rightarrow> (nat \<times> nat) option" where
  "scan_escape cs =
     (case cs of
        [] \<Rightarrow> None
      | e # es \<Rightarrow>
          if e \<noteq> 0x75 then (case backslash e of None \<Rightarrow> None | Some ch \<Rightarrow> Some (ch, 1))
          else
            (case es of
               a # b # c # d # rest \<Rightarrow>
                 (case decode_hex4 a b c d of
                    None \<Rightarrow> None
                  | Some uni \<Rightarrow>
                      if 0xD800 \<le> uni \<and> uni \<le> 0xDBFF \<and> take 2 rest = [0x5C, 0x75]
                      then
                        (case drop 2 rest of
                           a2 # b2 # c2 # d2 # rest2 \<Rightarrow>
                             (case decode_hex4 a2 b2 c2 d2 of
                                None \<Rightarrow> None
                              | Some uni2 \<Rightarrow>
                                  if 0xDC00 \<le> uni2 \<and> uni2 \<le> 0xDFFF
                                  then Some (0x10000 + ((uni - 0xD800) * 1024 + (uni2 - 0xDC00)), 11)
                                  else Some (uni, 5))
                         | _ \<Rightarrow> None)
                      else Some (uni, 5))
             | _ \<Rightarrow> None))"

definition cons_result :: "nat \<Rightarrow> (str \<times> str) option \<Rightarrow> (str \<times> str) option" where
  "cons_result c r = (case r of None \<Rightarrow> None | Some (s, rest) \<Rightarrow> Some (c # s, rest))"

text \<open>
  \<open>scanstring\<close> reads the text after the opening quote up to the closing quote and
  gives the string denoted and the text left over.
\<close>

function scanstring :: "str \<Rightarrow> (str \<times> str) option" where
  "scanstring [] = None"
| "scanstring (c # cs) =
     (if c = 0x22 then Some ([], cs)
      else if c = 0x5C then
        (case scan_escape cs of
           None \<Rightarrow> None
         | Some (ch, n) \<Rightarrow> cons_result ch (scanstring (drop n cs)))
      else if c < 0x20 then None
      else cons_result c (scanstring cs))"
  by pat_completeness auto
termination
  by (relation "measure length") auto

definition json_string_literal :: "str \<Rightarrow> str option" where
  "json_string_literal text =
     (case text of
        [] \<Rightarrow> None
      | q # body \<Rightarrow>
          if q = 0x22
          then (case scanstring body of
                  None \<Rightarrow> None
                | Some (s, rest) \<Rightarrow> if rest = [] then Some s else None)
          else None)"

section \<open>The script\<close>

text \<open>
  The parts of Python's library that the script calls and that are taken as
  given: \<open>json.loads\<close> (the object parsed, or the error raised on text it does not
  accept) and the text of a float.
\<close>

record pylib =
  json_loads :: "str \<Rightarrow> pyerror + json"
  float_repr :: "64 word \<Rightarrow> str"

definition read_powershell_script :: "path \<Rightarrow> world \<Rightarrow> (pyerror + str) \<times> world" where
  "read_powershell_script filepath w = read_text filepath w"

text \<open>\<open>json.dumps(text)[1:-1]\<close>\<close>

definition escape_for_json :: "str \<Rightarrow> str" where
  "escape_for_json text = butlast (tl (encode_basestring_ascii text))"

definition update_template ::
  "pylib \<Rightarrow> path \<Rightarrow> path \<Rightarrow> path \<Rightarrow> world \<Rightarrow> (pyerror + bool) \<times> world" where
  "update_template lib template_path script_path output_path w0 =
    (let w1 = emit (Print (ascii ''Reading PowerShell script from: '' @ script_path)) w0;
         (r2, w2) = read_powershell_script script_path w1
     in case r2 of
       Inl e \<Rightarrow> (Inl e, w2)
     | Inr ps_script \<Rightarrow>
        (let w3 = emit (Print (ascii ''Reading template from: '' @ template_path)) w2;
             (r4, w4) = read_text template_path w3
         in case r4 of
           Inl e \<Rightarrow> (Inl e, w4)
         | Inr template_content \<Rightarrow>
            (let w5 = emit (Print (ascii ''Parsing template JSON...'')) w4
             in case json_loads lib template_content of
               Inl e \<Rightarrow> (Inl e, w5)
             | Inr template \<Rightarrow>
                (let w6 = emit (Print (ascii ''Updating $fxv#2 variable...'')) w5
                 in case apply_update template ps_script of
                   Inl e \<Rightarrow> (Inl e, w6)
                 | Inr (found, template') \<Rightarrow>
                    if \<not> found
                    then (Inr False,
                      emit (Print (ascii ''[ERROR] Could not find $fxv#2 in template variables'')) w6)
                    else
                     (let w7 = emit (Print (ascii ''[SUCCESS] Successfully updated $fxv#2'')) w6;
                          w8 = emit (Print (ascii ''Writing updated template to: '' @ output_path)) w7;
                          (r9, w9) = write_text output_path
                                       (json_encode (float_repr lib) 0 template') w8
                      in case r9 of
                        Inl e \<Rightarrow> (Inl e, w9)
                      | Inr u \<Rightarrow>
                          (Inr True,
                           emit (Print (ascii ''[SUCCESS] Template updated successfully!'')) w9))))))"

text \<open>
  The \<open>__main__\<close> block. \<open>sys_path\<close> is \<open>sys.path\<close> and \<open>argv\<close> is \<open>sys.argv\<close>. The
  result is the exit status of the process with the world it leaves: the
  argument of \<open>sys.exit\<close>, or 1 when an exception is not caught.
\<close>

definition script_dir :: "str \<Rightarrow> str" where
  "script_dir sys_path0 = (if sys_path0 \<noteq> [] then sys_path0 else ascii ''.'')"

definition template_path_of :: "str \<Rightarrow> path" where
  "template_path_of sys_path0 = script_dir sys_path0 @ ascii ''/../template.json''"

definition script_path_of :: "str \<Rightarrow> path" where
  "script_path_of sys_path0 = script_dir sys_path0 @ ascii ''/uploadSettings-enhanced.ps1''"

definition output_path_of :: "str \<Rightarrow> path" where
  "output_path_of sys_path0 = script_dir sys_path0 @ ascii ''/../template.json''"

definition exit_status :: "pyerror + bool \<Rightarrow> int" where
  "exit_status r = (case r of Inl e \<Rightarrow> 1 | Inr success \<Rightarrow> if success then 0 else 1)"

definition main :: "pylib \<Rightarrow> str list \<Rightarrow> str list \<Rightarrow> world \<Rightarrow> int \<times> world" where
  "main lib sys_path argv w =
     (case sys_path of
        [] \<Rightarrow> (1, w)
      | sys_path0 # others \<Rightarrow>
          (case update_template lib (template_path_of sys_path0) (script_path_of sys_path0)
                  (output_path_of sys_path0) w of
             (r, w') \<Rightarrow> (exit_status r, w')))"

section \<open>Notions used to state the properties\<close>

text \<open>
  The events a run adds to the trace, and, among events, the calls of \<open>open\<close> in
  their order.
\<close>

definition new_events :: "world \<Rightarrow> world \<Rightarrow> event list" where
  "new_events w w' = drop (length (trace w)) (trace w')"

fun opens :: "event list \<Rightarrow> event list" where
  "opens [] = []"
| "opens (Print m # es) = opens es"
| "opens (OpenRead p # es) = OpenRead p # opens es"
| "opens (OpenWrite p # es) = OpenWrite p # opens es"

fun writes :: "event list \<Rightarrow> path list" where
  "writes [] = []"
| "writes (Print m # es) = writes es"
| "writes (OpenRead p # es) = writes es"
| "writes (OpenWrite p # es) = p # writes es"



text \<open>
  Two objects have the same keys in the same order and the same value under every
  key but \<open>k\<close>.
\<close>

fun same_except :: "str \<Rightarrow> (str \<times> json) list \<Rightarrow> (str \<times> json) list \<Rightarrow> bool" where
  "same_except k [] [] = True"
| "same_except k ((a, x) # xs) ((b, y) # ys) = (a = b \<and> (a = k \<or> x = y) \<and> same_except k xs ys)"
| "same_except k [] (q # ys) = False"
| "same_except k (p # xs) [] = False"


text \<open>
  The template has the shape the script looks for: an object whose \<open>variables\<close>
  is an object with the key \<open>$fxv#2\<close>.
\<close>

definition has_target :: "json \<Rightarrow> bool" where
  "has_target d =
     (case d of
        JDict kvs \<Rightarrow>
          (case map_of kvs variables_key of
             Some (JDict vs) \<Rightarrow> map_of vs fxv2_key \<noteq> None
           | _ \<Rightarrow> False)
      | _ \<Rightarrow> False)"

text \<open>
  \<open>x\<close> is a container that can be asked for \<open>k\<close> and does not hold it: an object
  without the key \<open>k\<close>, an array without the element \<open>k\<close>, a string in which \<open>k\<close>
  does not occur.
\<close>

fun holds_no :: "str \<Rightarrow> json \<Rightarrow> bool" where
  "holds_no k (JDict kvs) = (map_of kvs k = None)"
| "holds_no k (JList xs) = (JStr k \<notin> set xs)"
| "holds_no k (JStr s) = (\<not> is_substring k s)"
| "holds_no k JNull = False"
| "holds_no k (JBool b) = False"
| "holds_no k (JInt i) = False"
| "holds_no k (JFloat f) = False"

definition not_found_shape :: "json \<Rightarrow> bool" where
  "not_found_shape d =
     (holds_no variables_key d \<or>
      (case d of
         JDict kvs \<Rightarrow>
           (case map_of kvs variables_key of
              Some v \<Rightarrow> holds_no fxv2_key v
            | None \<Rightarrow> False)
       | _ \<Rightarrow> False))"




text \<open>
  Strings for the round trip of \<open>escape_for_json\<close>: every element is a code
  point, and no high surrogate (\<open>U+D800\<close> to \<open>U+DBFF\<close>) is directly followed by a
  low surrogate (\<open>U+DC00\<close> to \<open>U+DFFF\<close>).
\<close>

definition is_code_point :: "nat \<Rightarrow> bool" where
  "is_code_point c = (c < 0x110000)"

definition is_high_surrogate :: "nat \<Rightarrow> bool" where
  "is_high_surrogate c = (0xD800 \<le> c \<and> c \<le> 0xDBFF)"

definition is_low_surrogate :: "nat \<Rightarrow> bool" where
  "is_low_surrogate c = (0xDC00 \<le> c \<and> c \<le> 0xDFFF)"

fun no_surrogate_pair :: "str \<Rightarrow> bool" where
  "no_surrogate_pair [] = True"
| "no_surrogate_pair [c] = True"
| "no_surrogate_pair (c # d # cs) =
     (\<not> (is_high_surrogate c \<and> is_low_surrogate d) \<and> no_surrogate_pair (d # cs))"

text \<open>
  A text starts with a \<open>\uXXXX\<close> escape that the reader joins to a high surrogate
  before it (the escape of a low surrogate), or with a broken one.
\<close>

definition joins_low :: "str \<Rightarrow> bool" where
  "joins_low k =
     (take 2 k = [0x5C, 0x75] \<and>
      (case drop 2 k of
         a # b # c # d # rest \<Rightarrow>
           (case decode_hex4 a b c d of
              None \<Rightarrow> True
            | Some u \<Rightarrow> is_low_surrogate u)
       | _ \<Rightarrow> True))"

definition sample_string :: str where
  \<open>sample_string = ascii ''Write-Host "C:'' @ [0x5C] @ ascii ''temp"''
     @ [13, 10, 9, 0xE9, 0x20AC, 0x1F600, 0xD83D, 0x41]\<close>

section \<open>A sample installation\<close>

text \<open>
  The script lies in \<open>/repo/scripts\<close>, beside a PowerShell script of one line that
  ends in \<open>\r\n\<close>; the template is \<open>/repo/scripts/../template.json\<close>. Every file
  can be written, the line separator is \<open>\n\<close>.
\<close>

definition demo_dir :: str where
  "demo_dir = ascii ''/repo/scripts''"

definition demo_script :: str where
  \<open>demo_script = ascii ''Write-Host "hi"'' @ [13, 10]\<close>

definition demo_script_read :: str where
  \<open>demo_script_read = ascii ''Write-Host "hi"'' @ [10]\<close>

definition demo_world :: "str \<Rightarrow> world" where
  "demo_world template_text =
     \<lparr> files = (\<lambda>p. if p = script_path_of demo_dir then Inr demo_script
                    else if p = template_path_of demo_dir then Inr template_text
                    else Inl FileNotFoundError),
       write_denied = (\<lambda>p. None),
       linesep = [10],
       torn = (\<lambda>text. []),
       trace = [] \<rparr>"

definition no_script_world :: "str \<Rightarrow> world" where
  "no_script_world template_text =
     \<lparr> files = (\<lambda>p. if p = template_path_of demo_dir then Inr template_text
                    else Inl FileNotFoundError),
       write_denied = (\<lambda>p. None),
       linesep = [10],
       torn = (\<lambda>text. []),
       trace = [] \<rparr>"

text \<open>Templates, as text and as the objects \<open>json.loads\<close> makes of them.\<close>

definition text_old :: str where
  \<open>text_old = ascii ''{"variables": {"$fxv#2": "old"}, "contentVersion": "1.0.0.0"}''\<close>

definition doc_old :: json where
  "doc_old = JDict [(variables_key, JDict [(fxv2_key, JStr (ascii ''old''))]),
                    (ascii ''contentVersion'', JStr (ascii ''1.0.0.0''))]"

definition doc_new :: json where
  "doc_new = JDict [(variables_key, JDict [(fxv2_key, JStr demo_script_read)]),
                    (ascii ''contentVersion'', JStr (ascii ''1.0.0.0''))]"


definition text_number :: str where
  \<open>text_number = ascii ''{"variables": {"$fxv#2": 7}}''\<close>

definition doc_number :: json where
  "doc_number = JDict [(variables_key, JDict [(fxv2_key, JInt 7)])]"

definition text_empty_variables :: str where
  \<open>text_empty_variables = ascii ''{"variables": {}}''\<close>

definition doc_empty_variables :: json where
  "doc_empty_variables = JDict [(variables_key, JDict [])]"

definition text_null_variables :: str where
  \<open>text_null_variables = ascii ''{"variables": null}''\<close>

definition doc_null_variables :: json where
  "doc_null_variables = JDict [(variables_key, JNull)]"


text \<open>
  \<open>json.loads\<close> on the texts above and on the text the script writes for
  \<open>doc_new\<close>; this table stands for it in the sample runs.
\<close>

definition demo_float_repr :: "64 word \<Rightarrow> str" where
  "demo_float_repr f = ascii ''0.0''"

definition demo_loads :: "str \<Rightarrow> pyerror + json" where
  "demo_loads text =
     (if text = text_old then Inr doc_old
      else if text = json_encode demo_float_repr 0 doc_new then Inr doc_new
      else if text = text_number then Inr doc_number
      else if text = text_empty_variables then Inr doc_empty_variables
      else if text = text_null_variables then Inr doc_null_variables
      else Inl JSONDecodeError)"

definition demo_lib :: pylib where
  "demo_lib = \<lparr> json_loads = demo_loads, float_repr = demo_float_repr \<rparr>"

section \<open>Dictionaries and the update step\<close>


lemma map_of_dict_set_other: "k' \<noteq> k \<Longrightarrow> map_of (dict_set k v kvs) k' = map_of kvs k'"
  by (induction kvs) auto



lemma same_except_other:
  "k \<noteq> j \<Longrightarrow> same_except k kvs kvs' \<Longrightarrow> map_of kvs' j = map_of kvs j"
  by (induction k kvs kvs' rule: same_except.induct) auto


lemma apply_update_no_variables:
  assumes "map_of kvs variables_key = None"
  shows "apply_update (JDict kvs) s = Inr (False, JDict kvs)"
  using assms by (simp add: apply_update_def)

lemma apply_update_no_key:
  assumes "map_of kvs variables_key = Some (JDict vs)" and "map_of vs fxv2_key = None"
  shows "apply_update (JDict kvs) s = Inr (False, JDict kvs)"
  using assms by (simp add: apply_update_def)




lemma apply_update_without_target:
  assumes "\<not> has_target d"
  shows "apply_update d s = (if not_found_shape d then Inr (False, d) else Inl TypeError)"
proof (cases d)
  case (JDict kvs)
  show ?thesis
  proof (cases "map_of kvs variables_key")
    case None
    then show ?thesis using JDict by (simp add: apply_update_def not_found_shape_def)
  next
    case (Some v)
    then show ?thesis using JDict assms
      by (cases v) (simp_all add: apply_update_def not_found_shape_def has_target_def)
  qed
qed (simp_all add: apply_update_def not_found_shape_def)

lemma apply_update_never_mutates_on_failure:
  "apply_update d s = Inr (False, d') \<Longrightarrow> d' = d"
  by (auto simp: apply_update_def split: sum.splits bool.splits)

section \<open>The runs of \<open>update_template\<close>, step by step\<close>

lemma ut_script_fail:
  assumes "files w sp = Inl e"
  shows "update_template lib tp sp op w =
    (Inl e, w\<lparr>trace := trace w @
       [Print (ascii ''Reading PowerShell script from: '' @ sp), OpenRead sp]\<rparr>)"
  using assms
  by (simp add: update_template_def read_powershell_script_def read_text_def emit_def)



lemma ut_update_error:
  assumes "files w sp = Inr raw_script" and "files w tp = Inr raw_template"
    and "json_loads lib (universal_newlines raw_template) = Inr d"
    and "apply_update d (universal_newlines raw_script) = Inl e"
  shows "update_template lib tp sp op w =
    (Inl e, w\<lparr>trace := trace w @
       [Print (ascii ''Reading PowerShell script from: '' @ sp), OpenRead sp,
        Print (ascii ''Reading template from: '' @ tp), OpenRead tp,
        Print (ascii ''Parsing template JSON...''),
        Print (ascii ''Updating $fxv#2 variable...'')]\<rparr>)"
  using assms
  by (simp add: update_template_def read_powershell_script_def read_text_def emit_def)

lemma ut_not_found:
  assumes "files w sp = Inr raw_script" and "files w tp = Inr raw_template"
    and "json_loads lib (universal_newlines raw_template) = Inr d"
    and "apply_update d (universal_newlines raw_script) = Inr (False, d')"
  shows "update_template lib tp sp op w =
    (Inr False, w\<lparr>trace := trace w @
       [Print (ascii ''Reading PowerShell script from: '' @ sp), OpenRead sp,
        Print (ascii ''Reading template from: '' @ tp), OpenRead tp,
        Print (ascii ''Parsing template JSON...''),
        Print (ascii ''Updating $fxv#2 variable...''),
        Print (ascii ''[ERROR] Could not find $fxv#2 in template variables'')]\<rparr>)"
  using assms
  by (simp add: update_template_def read_powershell_script_def read_text_def emit_def)




lemma main_unfold:
  "main lib (p0 # others) argv w =
     (exit_status (fst (update_template lib (template_path_of p0) (script_path_of p0)
                          (output_path_of p0) w)),
      snd (update_template lib (template_path_of p0) (script_path_of p0)
             (output_path_of p0) w))"
  by (simp add: main_def split: prod.splits)

lemma script_path_not_output: "script_path_of p0 \<noteq> output_path_of p0"
proof
  assume "script_path_of p0 = output_path_of p0"
  then have "ascii ''/uploadSettings-enhanced.ps1'' = ascii ''/../template.json''"
    by (simp add: script_path_of_def output_path_of_def)
  then show False by (simp add: ascii_def)
qed

lemma template_path_is_output: "template_path_of p0 = output_path_of p0"
  by (simp add: template_path_of_def output_path_of_def)

text \<open>
  Whenever the update step does not report the key found, the run ends with
  status 1, no file is changed and no file is opened for writing.
\<close>

lemma no_update_no_write:
  assumes tpl: "files w (template_path_of p0) = Inr raw_template"
    and parsed: "json_loads lib (universal_newlines raw_template) = Inr d"
    and fails: "\<And>s. apply_update d s = Inl TypeError \<or> apply_update d s = Inr (False, d)"
  shows "fst (main lib (p0 # others) argv w) = 1
       \<and> files (snd (main lib (p0 # others) argv w)) = files w
       \<and> writes (new_events w (snd (main lib (p0 # others) argv w))) = []"
proof (cases "files w (script_path_of p0)")
  case (Inl e)
  show ?thesis
    by (simp add: main_unfold ut_script_fail [OF Inl] exit_status_def new_events_def)
next
  case (Inr raw_script)
  from fails [of "universal_newlines raw_script"] show ?thesis
  proof
    assume "apply_update d (universal_newlines raw_script) = Inl TypeError"
    from ut_update_error [OF Inr tpl parsed this] show ?thesis
      by (simp add: main_unfold exit_status_def new_events_def)
  next
    assume "apply_update d (universal_newlines raw_script) = Inr (False, d)"
    from ut_not_found [OF Inr tpl parsed this] show ?thesis
      by (simp add: main_unfold exit_status_def new_events_def)
  qed
qed



section \<open>The sample installation, evaluated\<close>

lemma demo_paths_differ: "script_path_of demo_dir \<noteq> template_path_of demo_dir"
  using script_path_not_output [of demo_dir] by (simp add: template_path_is_output)

lemma demo_files_script: "files (demo_world t) (script_path_of demo_dir) = Inr demo_script"
  by (simp add: demo_world_def)

lemma demo_files_template: "files (demo_world t) (template_path_of demo_dir) = Inr t"
  using demo_paths_differ by (auto simp: demo_world_def)

lemma demo_files_output: "files (demo_world t) (output_path_of demo_dir) = Inr t"
  using demo_files_template [of t] by (simp add: template_path_is_output)


lemma no_script_files_script:
  "files (no_script_world t) (script_path_of demo_dir) = Inl FileNotFoundError"
  using demo_paths_differ by (simp add: no_script_world_def)

lemma no_script_files_template: "files (no_script_world t) (template_path_of demo_dir) = Inr t"
  by (simp add: no_script_world_def)





lemma text_empty_variables_as_read: "universal_newlines text_empty_variables = text_empty_variables"
  by (simp add: text_empty_variables_def ascii_def)

lemma text_null_variables_as_read: "universal_newlines text_null_variables = text_null_variables"
  by (simp add: text_null_variables_def ascii_def)



lemma encoded_doc_new:
  \<open>json_encode demo_float_repr 0 doc_new =
     ascii ''{'' @ [10] @ ascii ''  "variables": {'' @ [10]
     @ ascii ''    "$fxv#2": "Write-Host '' @ [0x5C, 0x22] @ ascii ''hi'' @ [0x5C, 0x22]
     @ [0x5C, 0x6E, 0x22, 10]
     @ ascii ''  },'' @ [10]
     @ ascii ''  "contentVersion": "1.0.0.0"'' @ [10] @ ascii ''}''\<close>
  by (simp add: doc_new_def demo_script_read_def variables_key_def fxv2_key_def ascii_def
      encode_basestring_def escape_char_def escape_dct_def newline_indent_def
      numeral_2_eq_2)


section \<open>Runs that patch the template\<close>





section \<open>More of the sample installation\<close>


lemma loads_text_null_variables: "json_loads demo_lib text_null_variables = Inr doc_null_variables"
  by (simp add: demo_lib_def demo_loads_def)
    (simp add: text_null_variables_def text_empty_variables_def text_number_def
      text_old_def encoded_doc_new ascii_def)

lemma loads_text_empty_variables:
  "json_loads demo_lib text_empty_variables = Inr doc_empty_variables"
  by (simp add: demo_lib_def demo_loads_def)
    (simp add: text_empty_variables_def text_number_def text_old_def encoded_doc_new ascii_def)







section \<open>Properties of the script\<close>



text \<open>
  C5. When the script file cannot be read (it does not exist, or opening or
  decoding it fails), the run ends there with status 1: no file is changed, the
  only file opened is the script itself, so the template is not read and nothing
  is opened for writing. The error raised is the one of the script file.
\<close>

theorem unreadable_script_stops_the_run:
  assumes "files w (script_path_of p0) = Inl e"
    and "main lib (p0 # others) argv w = (status, w')"
  shows "status = 1
       \<and> files w' = files w
       \<and> opens (new_events w w') = [OpenRead (script_path_of p0)]
       \<and> writes (new_events w w') = []
       \<and> fst (update_template lib (template_path_of p0) (script_path_of p0)
                 (output_path_of p0) w) = Inl e"
  using assms(2)
  by (auto simp: main_unfold ut_script_fail [OF assms(1)] exit_status_def new_events_def)

theorem unreadable_script_stops_the_run_witness:
  "files (no_script_world text_old) (script_path_of demo_dir) = Inl FileNotFoundError
   \<and> fst (main demo_lib [demo_dir] [] (no_script_world text_old)) = 1
   \<and> files (snd (main demo_lib [demo_dir] [] (no_script_world text_old)))
       = files (no_script_world text_old)
   \<and> opens (new_events (no_script_world text_old)
              (snd (main demo_lib [demo_dir] [] (no_script_world text_old))))
       = [OpenRead (script_path_of demo_dir)]"
proof -
  have missing: "files (no_script_world text_old) (script_path_of demo_dir) = Inl FileNotFoundError"
    by (rule no_script_files_script)
  have run: "main demo_lib [demo_dir] [] (no_script_world text_old)
      = (fst (main demo_lib [demo_dir] [] (no_script_world text_old)),
         snd (main demo_lib [demo_dir] [] (no_script_world text_old)))"
    by simp
  from unreadable_script_stops_the_run [OF missing run] missing show ?thesis by simp
qed

text \<open>
  C2. When the template parses to an object that has no \<open>variables\<close> key, or whose
  \<open>variables\<close> is an object without the key \<open>$fxv#2\<close>, the run ends with status
  1, no file is changed and no file is opened for writing; this holds whether or
  not the script file can be read.
\<close>

theorem missing_key_exits_1_without_write:
  assumes "files w (template_path_of p0) = Inr raw_template"
    and "json_loads lib (universal_newlines raw_template) = Inr (JDict kvs)"
    and "map_of kvs variables_key = None
         \<or> (\<exists>vs. map_of kvs variables_key = Some (JDict vs) \<and> map_of vs fxv2_key = None)"
    and "main lib (p0 # others) argv w = (status, w')"
  shows "status = 1 \<and> files w' = files w \<and> writes (new_events w w') = []"
proof -
  have "apply_update (JDict kvs) s = Inr (False, JDict kvs)" for s
    using assms(3) apply_update_no_variables apply_update_no_key by blast
  then have "apply_update (JDict kvs) s = Inl TypeError
      \<or> apply_update (JDict kvs) s = Inr (False, JDict kvs)" for s
    by simp
  from no_update_no_write [OF assms(1,2) this, of others argv] assms(4)
  show ?thesis by auto
qed

theorem missing_key_exits_1_without_write_witness:
  "files (demo_world text_empty_variables) (template_path_of demo_dir) = Inr text_empty_variables
   \<and> json_loads demo_lib (universal_newlines text_empty_variables) = Inr (JDict [(variables_key, JDict [])])
   \<and> map_of [(variables_key, JDict [])] variables_key = Some (JDict [])
   \<and> map_of [] fxv2_key = (None :: json option)
   \<and> fst (main demo_lib [demo_dir] [] (demo_world text_empty_variables)) = 1
   \<and> files (snd (main demo_lib [demo_dir] [] (demo_world text_empty_variables)))
       = files (demo_world text_empty_variables)
   \<and> writes (new_events (demo_world text_empty_variables)
        (snd (main demo_lib [demo_dir] [] (demo_world text_empty_variables)))) = []"
proof -
  have tpl: "files (demo_world text_empty_variables) (template_path_of demo_dir)
      = Inr text_empty_variables"
    by (rule demo_files_template)
  have parsed: "json_loads demo_lib (universal_newlines text_empty_variables)
      = Inr (JDict [(variables_key, JDict [])])"
    by (simp add: text_empty_variables_as_read demo_lib_def demo_loads_def
        doc_empty_variables_def)
      (simp add: text_empty_variables_def text_old_def text_number_def encoded_doc_new ascii_def)
  have shape: "map_of [(variables_key, JDict [])] variables_key = None
      \<or> (\<exists>vs. map_of [(variables_key, JDict [])] variables_key = Some (JDict vs)
            \<and> map_of vs fxv2_key = None)"
    by simp
  have run: "main demo_lib [demo_dir] [] (demo_world text_empty_variables)
      = (fst (main demo_lib [demo_dir] [] (demo_world text_empty_variables)),
         snd (main demo_lib [demo_dir] [] (demo_world text_empty_variables)))"
    by simp
  from missing_key_exits_1_without_write [OF tpl parsed shape run] tpl parsed
  show ?thesis by simp
qed





text \<open>
  C3, as the code has it. Let the parsed template lack the target (it is not an
  object whose \<open>variables\<close> is an object holding \<open>$fxv#2\<close>). The update step then
  never changes the template, and the run ends with status 1 with no file
  changed and none opened for writing. The step takes the checked path (the
  \<open>else\<close> branch, \<open>return False\<close>) exactly when a membership test comes out false:
  the template is an object, array or string that does not hold \<open>variables\<close>, or
  an object whose \<open>variables\<close> is an object, array or string that does not hold
  \<open>$fxv#2\<close>. For every other shape the step raises \<open>TypeError\<close>, which nothing
  catches.
\<close>

theorem without_target_nothing_is_written:
  assumes "\<not> has_target d"
    and "files w (template_path_of p0) = Inr raw_template"
    and "json_loads lib (universal_newlines raw_template) = Inr d"
    and "main lib (p0 # others) argv w = (status, w')"
  shows "apply_update d s = (if not_found_shape d then Inr (False, d) else Inl TypeError)
       \<and> status = 1 \<and> files w' = files w \<and> writes (new_events w w') = []
       \<and> fst (update_template lib (template_path_of p0) (script_path_of p0)
                 (output_path_of p0) w)
         = (case files w (script_path_of p0) of
              Inl e \<Rightarrow> Inl e
            | Inr raw_script \<Rightarrow> if not_found_shape d then Inr False else Inl TypeError)"
proof -
  note step = apply_update_without_target [OF assms(1)]
  have "apply_update d t = Inl TypeError \<or> apply_update d t = Inr (False, d)" for t
    by (simp add: step)
  from no_update_no_write [OF assms(2,3) this, of others argv] assms(4)
  have quiet: "status = 1 \<and> files w' = files w \<and> writes (new_events w w') = []"
    by auto
  have "fst (update_template lib (template_path_of p0) (script_path_of p0)
               (output_path_of p0) w)
      = (case files w (script_path_of p0) of
           Inl e \<Rightarrow> Inl e
         | Inr raw_script \<Rightarrow> if not_found_shape d then Inr False else Inl TypeError)"
  proof (cases "files w (script_path_of p0)")
    case (Inl e)
    from ut_script_fail [OF Inl] Inl show ?thesis by simp
  next
    case (Inr raw_script)
    show ?thesis
    proof (cases "not_found_shape d")
      case True
      then have "apply_update d (universal_newlines raw_script) = Inr (False, d)"
        by (simp add: step)
      from ut_not_found [OF Inr assms(2,3) this] Inr True show ?thesis by simp
    next
      case False
      then have "apply_update d (universal_newlines raw_script) = Inl TypeError"
        by (simp add: step)
      from ut_update_error [OF Inr assms(2,3) this] Inr False show ?thesis by simp
    qed
  qed
  with quiet step show ?thesis by simp
qed

theorem without_target_nothing_is_written_witness:
  "\<not> has_target doc_empty_variables
   \<and> files (demo_world text_empty_variables) (template_path_of demo_dir) = Inr text_empty_variables
   \<and> json_loads demo_lib (universal_newlines text_empty_variables) = Inr doc_empty_variables
   \<and> not_found_shape doc_empty_variables
   \<and> apply_update doc_empty_variables demo_script_read = Inr (False, doc_empty_variables)
   \<and> fst (main demo_lib [demo_dir] [] (demo_world text_empty_variables)) = 1
   \<and> files (snd (main demo_lib [demo_dir] [] (demo_world text_empty_variables)))
       = files (demo_world text_empty_variables)
   \<and> fst (update_template demo_lib (template_path_of demo_dir) (script_path_of demo_dir)
            (output_path_of demo_dir) (demo_world text_empty_variables)) = Inr False"
proof -
  have shape: "\<not> has_target doc_empty_variables"
    by (simp add: has_target_def doc_empty_variables_def)
  have checked: "not_found_shape doc_empty_variables"
    by (simp add: not_found_shape_def doc_empty_variables_def)
  have tpl: "files (demo_world text_empty_variables) (template_path_of demo_dir)
      = Inr text_empty_variables"
    by (rule demo_files_template)
  have parsed: "json_loads demo_lib (universal_newlines text_empty_variables)
      = Inr doc_empty_variables"
    by (simp add: text_empty_variables_as_read loads_text_empty_variables)
  have run: "main demo_lib [demo_dir] [] (demo_world text_empty_variables)
      = (fst (main demo_lib [demo_dir] [] (demo_world text_empty_variables)),
         snd (main demo_lib [demo_dir] [] (demo_world text_empty_variables)))"
    by simp
  from without_target_nothing_is_written [OF shape tpl parsed run, of demo_script_read]
    shape checked tpl parsed
  show ?thesis by (simp add: demo_files_script)
qed

text \<open>
  C3 as stated fails: the template \<open>{"variables": null}\<close> parses, lacks the
  target, and the update step raises \<open>TypeError\<close> (\<open>None\<close> is not iterable), which
  ends the run as an uncaught exception instead of the checked path.
\<close>

theorem null_variables_raise_type_error:
  "\<not> has_target doc_null_variables
   \<and> files (demo_world text_null_variables) (template_path_of demo_dir) = Inr text_null_variables
   \<and> json_loads demo_lib (universal_newlines text_null_variables) = Inr doc_null_variables
   \<and> apply_update doc_null_variables demo_script_read = Inl TypeError
   \<and> fst (update_template demo_lib (template_path_of demo_dir) (script_path_of demo_dir)
            (output_path_of demo_dir) (demo_world text_null_variables)) = Inl TypeError"
proof -
  have shape: "\<not> has_target doc_null_variables"
    by (simp add: has_target_def doc_null_variables_def)
  have tpl: "files (demo_world text_null_variables) (template_path_of demo_dir)
      = Inr text_null_variables"
    by (rule demo_files_template)
  have parsed: "json_loads demo_lib (universal_newlines text_null_variables)
      = Inr doc_null_variables"
    by (simp add: text_null_variables_as_read loads_text_null_variables)
  have step: "apply_update doc_null_variables s = Inl TypeError" for s
    by (simp add: apply_update_def doc_null_variables_def)
  from ut_update_error [OF demo_files_script tpl parsed step] shape tpl parsed step
  show ?thesis by simp
qed












section \<open>Escaping a string and reading it back\<close>

lemma hex_value_hex_digit: "d < 16 \<Longrightarrow> hex_value (hex_digit d) = Some d"
  by (simp add: hex_value_def hex_digit_def)

lemma hex_digits_sum:
  assumes "(n::nat) < 65536"
  shows "(n div 4096 mod 16) * 4096 + (n div 256 mod 16) * 256 + (n div 16 mod 16) * 16
           + n mod 16 = n"
proof -
  define q1 where "q1 = n div 16"
  define q2 where "q2 = q1 div 16"
  define q3 where "q3 = q2 div 16"
  define r0 where "r0 = n mod 16"
  define r1 where "r1 = q1 mod 16"
  define r2 where "r2 = q2 mod 16"
  have e1: "n = q1 * 16 + r0" by (simp add: q1_def r0_def)
  have e2: "q1 = q2 * 16 + r1" by (simp add: q2_def r1_def)
  have e3: "q2 = q3 * 16 + r2" by (simp add: q3_def r2_def)
  have d2: "n div 256 = q2" by (simp add: q2_def q1_def div_mult2_eq)
  have d3: "n div 4096 = q3" by (simp add: q3_def q2_def q1_def div_mult2_eq)
  have "n div 4096 < 16"
    using assms less_mult_imp_div_less [of n 16 4096] by simp
  then have small: "q3 mod 16 = q3" by (simp add: d3)
  have "q3 * 4096 + r2 * 256 + r1 * 16 + r0 = n"
    using e1 e2 e3 by simp
  then show ?thesis
    by (simp add: d2 d3 small q1_def [symmetric] r0_def r1_def r2_def)
qed

lemma decode_hex4_of_digits:
  assumes "a < 16" and "b < 16" and "c < 16" and "d < 16"
  shows "decode_hex4 (hex_digit a) (hex_digit b) (hex_digit c) (hex_digit d)
         = Some (a * 4096 + b * 256 + c * 16 + d)"
  using assms by (simp add: decode_hex4_def hex_value_hex_digit)

lemma decode_hex4_digits:
  assumes "n < 65536"
  shows "decode_hex4 (hex_digit (n div 4096 mod 16)) (hex_digit (n div 256 mod 16))
           (hex_digit (n div 16 mod 16)) (hex_digit (n mod 16)) = Some n"
proof -
  have "decode_hex4 (hex_digit (n div 4096 mod 16)) (hex_digit (n div 256 mod 16))
           (hex_digit (n div 16 mod 16)) (hex_digit (n mod 16))
      = Some ((n div 4096 mod 16) * 4096 + (n div 256 mod 16) * 256 + (n div 16 mod 16) * 16
           + n mod 16)"
    by (rule decode_hex4_of_digits) simp_all
  then show ?thesis
    by (simp only: hex_digits_sum [OF assms])
qed

lemma scan_short_escape:
  assumes "e \<noteq> 0x75" and "backslash e = Some c"
  shows "scanstring (0x5C # e # k) = cons_result c (scanstring k)"
  using assms by (simp add: scan_escape_def)

lemma scan_u_single:
  assumes "n < 65536" and "\<not> (is_high_surrogate n \<and> joins_low k)"
  shows "scan_escape (0x75 # hex4 n @ k) = Some (n, 5)"
proof (cases "is_high_surrogate n \<and> take 2 k = [0x5C, 0x75]")
  case False
  then show ?thesis
    by (auto simp: scan_escape_def hex4_def decode_hex4_digits [OF assms(1)]
        is_high_surrogate_def)
next
  case True
  with assms(2) have k: "take 2 k = [0x5C, 0x75]" "\<not> joins_low k"
    by simp_all
  then obtain a b c d rest u where rest: "drop 2 k = a # b # c # d # rest"
      "decode_hex4 a b c d = Some u" "\<not> is_low_surrogate u"
    by (auto simp: joins_low_def split: list.splits option.splits)
  with True show ?thesis
    by (simp add: scan_escape_def hex4_def decode_hex4_digits [OF assms(1)]
        is_high_surrogate_def is_low_surrogate_def)
qed

lemma scan_u_pair:
  assumes "hi < 65536" and "lo < 65536" and "is_high_surrogate hi" and "is_low_surrogate lo"
  shows "scan_escape (0x75 # hex4 hi @ [0x5C, 0x75] @ hex4 lo @ k)
         = Some (0x10000 + ((hi - 0xD800) * 1024 + (lo - 0xDC00)), 11)"
  using assms(3,4)
  by (simp add: scan_escape_def hex4_def decode_hex4_digits [OF assms(1)]
      decode_hex4_digits [OF assms(2)] is_high_surrogate_def is_low_surrogate_def)

lemma scan_u_escape:
  assumes "n < 65536" and "\<not> (is_high_surrogate n \<and> joins_low k)"
  shows "scanstring ([0x5C, 0x75] @ hex4 n @ k) = cons_result n (scanstring k)"
proof -
  have "drop 5 (0x75 # hex4 n @ k) = k"
    by (simp add: hex4_def)
  with scan_u_single [OF assms] show ?thesis
    by simp
qed

lemma surrogate_halves:
  assumes "0x10000 \<le> c" and "c < 0x110000"
  shows "is_high_surrogate (0xD800 + (c - 0x10000) div 1024 mod 1024)"
    and "is_low_surrogate (0xDC00 + (c - 0x10000) mod 1024)"
    and "0x10000 + ((0xD800 + (c - 0x10000) div 1024 mod 1024 - 0xD800) * 1024
           + (0xDC00 + (c - 0x10000) mod 1024 - 0xDC00)) = c"
proof -
  define m where "m = c - 0x10000"
  have "m < 1024 * 1024"
    using assms by (simp add: m_def)
  then have "m div 1024 < 1024"
    by (rule less_mult_imp_div_less)
  then have small: "m div 1024 mod 1024 = m div 1024"
    by simp
  have low: "m mod 1024 < 1024"
    by simp
  show "is_high_surrogate (0xD800 + (c - 0x10000) div 1024 mod 1024)"
    using \<open>m div 1024 < 1024\<close>
    by (simp add: is_high_surrogate_def m_def [symmetric] small)
  show "is_low_surrogate (0xDC00 + (c - 0x10000) mod 1024)"
    using low by (simp add: is_low_surrogate_def m_def [symmetric] del: mod_less_divisor)
  have "m div 1024 * 1024 + m mod 1024 = m"
    by simp
  then have "0x10000 + (m div 1024 * 1024 + m mod 1024) = c"
    using assms by (simp add: m_def)
  then show "0x10000 + ((0xD800 + (c - 0x10000) div 1024 mod 1024 - 0xD800) * 1024
           + (0xDC00 + (c - 0x10000) mod 1024 - 0xDC00)) = c"
    by (simp add: m_def [symmetric] small)
qed

lemma scanstring_escaped_char:
  assumes "is_code_point c" and "\<not> (is_high_surrogate c \<and> joins_low k)"
  shows "scanstring (escape_ascii_char c @ k) = cons_result c (scanstring k)"
proof (cases "escape_dct c")
  case (Some e)
  show ?thesis
  proof (cases "c = 0x5C \<or> c = 0x22 \<or> c = 0x08 \<or> c = 0x0C \<or> c = 0x0A \<or> c = 0x0D \<or> c = 0x09")
    case True
    then show ?thesis
      by (auto simp: escape_ascii_char_def escape_dct_def scan_escape_def backslash_def)
  next
    case False
    with Some have c: "c < 0x20" and e: "e = [0x5C, 0x75] @ hex4 c"
      by (auto simp: escape_dct_def split: if_splits)
    from c have "c < 65536" by simp
    from scan_u_escape [OF this assms(2)] Some e show ?thesis
      by (simp add: escape_ascii_char_def)
  qed
next
  case None
  then have plain: "c \<noteq> 0x5C" "c \<noteq> 0x22" "0x20 \<le> c"
    by (auto simp: escape_dct_def split: if_splits)
  show ?thesis
  proof (cases "c \<le> 0x7E")
    case True
    with None plain show ?thesis
      by (simp add: escape_ascii_char_def)
  next
    case high: False
    show ?thesis
    proof (cases "c < 0x10000")
      case True
      then have "c < 65536" by simp
      from scan_u_escape [OF this assms(2)] None high True show ?thesis
        by (simp add: escape_ascii_char_def)
    next
      case False
      let ?hi = "0xD800 + (c - 0x10000) div 1024 mod 1024"
      let ?lo = "0xDC00 + (c - 0x10000) mod 1024"
      from False assms(1) have range: "0x10000 \<le> c" "c < 0x110000"
        by (simp_all add: is_code_point_def)
      note halves = surrogate_halves [OF range]
      from halves(1) have hi: "?hi < 65536"
        by (simp add: is_high_surrogate_def)
      from halves(2) have lo: "?lo < 65536"
        by (simp add: is_low_surrogate_def)
      have "scan_escape (0x75 # hex4 ?hi @ [0x5C, 0x75] @ hex4 ?lo @ k) = Some (c, 11)"
        using scan_u_pair [OF hi lo halves(1,2), of k] by (simp only: halves(3))
      moreover have "drop 11 (0x75 # hex4 ?hi @ [0x5C, 0x75] @ hex4 ?lo @ k) = k"
        by (simp add: hex4_def)
      ultimately have "scanstring ([0x5C, 0x75] @ hex4 ?hi @ [0x5C, 0x75] @ hex4 ?lo @ k)
          = cons_result c (scanstring k)"
        by simp
      with None high False show ?thesis
        by (simp add: escape_ascii_char_def)
    qed
  qed
qed

lemma escaped_char_joins_low:
  assumes "is_code_point d" and "joins_low (escape_ascii_char d @ k)"
  shows "is_low_surrogate d"
proof (cases "escape_dct d")
  case (Some e)
  show ?thesis
  proof (cases "d = 0x5C \<or> d = 0x22 \<or> d = 0x08 \<or> d = 0x0C \<or> d = 0x0A \<or> d = 0x0D \<or> d = 0x09")
    case True
    with assms(2) show ?thesis
      by (auto simp: escape_ascii_char_def escape_dct_def joins_low_def)
  next
    case False
    with Some have d: "d < 0x20" and e: "e = [0x5C, 0x75] @ hex4 d"
      by (auto simp: escape_dct_def split: if_splits)
    from d have "d < 65536" by simp
    from decode_hex4_digits [OF this] assms(2) Some e show ?thesis
      by (simp add: escape_ascii_char_def joins_low_def hex4_def)
  qed
next
  case None
  then have plain: "d \<noteq> 0x5C" "d \<noteq> 0x22" "0x20 \<le> d"
    by (auto simp: escape_dct_def split: if_splits)
  show ?thesis
  proof (cases "d \<le> 0x7E")
    case True
    with None plain assms(2) show ?thesis
      by (simp add: escape_ascii_char_def joins_low_def)
  next
    case high: False
    show ?thesis
    proof (cases "d < 0x10000")
      case True
      then have "d < 65536" by simp
      from decode_hex4_digits [OF this] assms(2) None high True show ?thesis
        by (simp add: escape_ascii_char_def joins_low_def hex4_def)
    next
      case False
      let ?hi = "0xD800 + (d - 0x10000) div 1024 mod 1024"
      from False assms(1) have range: "0x10000 \<le> d" "d < 0x110000"
        by (simp_all add: is_code_point_def)
      note halves = surrogate_halves [OF range]
      from halves(1) have hi: "?hi < 65536"
        by (simp add: is_high_surrogate_def)
      from assms(2) None high False have "joins_low ([0x5C, 0x75] @ hex4 ?hi
          @ [0x5C, 0x75] @ hex4 (0xDC00 + (d - 0x10000) mod 1024) @ k)"
        by (simp add: escape_ascii_char_def)
      with decode_hex4_digits [OF hi] have "is_low_surrogate ?hi"
        by (simp add: joins_low_def hex4_def)
      with halves(1) show ?thesis
        by (simp add: is_high_surrogate_def is_low_surrogate_def)
    qed
  qed
qed

lemma scanstring_escaped:
  assumes "list_all is_code_point s" and "no_surrogate_pair s"
  shows "scanstring (concat (map escape_ascii_char s) @ [0x22]) = Some (s, [])"
  using assms
proof (induction s rule: no_surrogate_pair.induct)
  case 1
  show ?case by simp
next
  case (2 c)
  have "\<not> (is_high_surrogate c \<and> joins_low [0x22])"
    by (simp add: joins_low_def)
  from scanstring_escaped_char [OF _ this] "2.prems" show ?case
    by (simp add: cons_result_def)
next
  case (3 c d cs)
  let ?k = "concat (map escape_ascii_char (d # cs)) @ [0x22]"
  from "3.prems" have points: "is_code_point c" "is_code_point d"
      "list_all is_code_point (d # cs)"
    and pair: "\<not> (is_high_surrogate c \<and> is_low_surrogate d)"
    and rest: "no_surrogate_pair (d # cs)"
    by simp_all
  have "\<not> (is_high_surrogate c \<and> joins_low ?k)"
    using pair escaped_char_joins_low [OF points(2), of "concat (map escape_ascii_char cs) @ [0x22]"]
    by auto
  from scanstring_escaped_char [OF points(1) this] "3.IH" [OF points(3) rest]
  show ?case
    by (simp add: cons_result_def)
qed

lemma escape_for_json_body: "escape_for_json s = concat (map escape_ascii_char s)"
  by (simp add: escape_for_json_def encode_basestring_ascii_def butlast_append)

text \<open>
  C9, as the code has it. For every string of code points in which no high
  surrogate is directly followed by a low surrogate (every string of Unicode
  scalar values is one), \<open>escape_for_json\<close> between double quotes reads back as
  the string. The patching pipeline does not call the helper: it stores the
  script text itself, which the serialiser escapes (\<open>encode_basestring\<close>).
\<close>

theorem escape_for_json_reads_back:
  assumes "list_all is_code_point s" and "no_surrogate_pair s"
  shows "json_string_literal ([0x22] @ escape_for_json s @ [0x22]) = Some s
       \<and> json_encode fr level (JStr s) = encode_basestring s"
  using scanstring_escaped [OF assms]
  by (simp add: json_string_literal_def escape_for_json_body)

theorem escape_for_json_reads_back_witness:
  "list_all is_code_point sample_string \<and> no_surrogate_pair sample_string
   \<and> json_string_literal ([0x22] @ escape_for_json sample_string @ [0x22]) = Some sample_string"
proof -
  have points: "list_all is_code_point sample_string"
    by (simp add: sample_string_def is_code_point_def ascii_def)
  have pairs: "no_surrogate_pair sample_string"
    by (simp add: sample_string_def is_high_surrogate_def is_low_surrogate_def ascii_def)
  from escape_for_json_reads_back [OF points pairs] points pairs show ?thesis
    by simp
qed

text \<open>
  C9 as stated fails for a string that holds a high surrogate directly followed
  by a low surrogate: the escapes of \<open>U+D83D\<close> and \<open>U+DE00\<close> read back as the single code
  point \<open>U+1F600\<close>.
\<close>

theorem surrogate_pair_does_not_read_back:
  "is_code_point 0xD83D \<and> is_code_point 0xDE00
   \<and> escape_for_json [0xD83D, 0xDE00] = [0x5C] @ ascii ''ud83d'' @ [0x5C] @ ascii ''ude00''
   \<and> json_string_literal ([0x22] @ escape_for_json [0xD83D, 0xDE00] @ [0x22]) = Some [0x1F600]
   \<and> json_string_literal ([0x22] @ escape_for_json [0xD83D, 0xDE00] @ [0x22])
       \<noteq> Some [0xD83D, 0xDE00]"
proof -
  have escaped: "escape_for_json [0xD83D, 0xDE00]
      = [0x5C] @ ascii ''ud83d'' @ [0x5C] @ ascii ''ude00''"
    by (simp add: escape_for_json_body escape_ascii_char_def escape_dct_def hex4_def
        hex_digit_def ascii_def)
  have "json_string_literal ([0x22] @ escape_for_json [0xD83D, 0xDE00] @ [0x22])
      = Some [0x1F600]"
    by (simp add: escaped ascii_def json_string_literal_def scan_escape_def decode_hex4_def
        hex_value_def cons_result_def)
  with escaped show ?thesis
    by (simp add: is_code_point_def)
qed

end
